theory Spec2Isabelle
  imports Main "HOL-Library.Word"
begin

unbundle bit_operations_syntax

section \<open>Data model of the node communication interface\<close>

text \<open>
  The repository holds two snapshots of the node communication interface of a logic
  node: \<^verbatim>\<open>logic/impl/node-node-interface.go\<close> (the snapshot with the prey-capture
  message) and a second snapshot of the same file with the ACK protocol (sequence
  numbers, \<^verbatim>\<open>ACKSReceived\<close>, \<^verbatim>\<open>ManageAcks\<close>). Where both snapshots define a
  function differently, the definition taken from the ACK snapshot carries the suffix
  \<open>_ack\<close>; where the two bodies agree there is one definition.

  Go strings are byte strings and are modelled as \<open>string\<close>; \<^verbatim>\<open>[]byte\<close> is a list of
  8-bit words; \<^verbatim>\<open>uint64\<close> and \<^verbatim>\<open>int\<close> are 64-bit words (addition wraps); a Go map
  is a partial function, except the peer roster \<^verbatim>\<open>OtherNodes\<close>, whose length and
  iteration order are used and which is an association list with distinct keys (its order
  stands for the iteration order that Go leaves open). A pointer that may be nil is an
  \<open>option\<close>. A buffered channel (\<^verbatim>\<open>MessagesToSend\<close>, \<^verbatim>\<open>NodesToDelete\<close>) is the
  queue of the values sent on it and not yet received. \<^verbatim>\<open>MovesToSend\<close> is made without
  a buffer: a send on it ends only when a receive takes the value, so its list holds the
  values that goroutines blocked in a send are offering, the oldest first.
\<close>

type_synonym byte = "8 word"
type_synonym uint64 = "64 word"
type_synonym goint = "64 word"

text \<open>\<^verbatim>\<open>shared.Coord\<close>: the two integer components of a grid coordinate. No arithmetic is
  done on them here; they are compared and printed in decimal.\<close>

record Coord =
  X :: int
  Y :: int

text \<open>\<^verbatim>\<open>shared.MoveCommit\<close>: the fields read by this file.\<close>

record MoveCommit =
  MoveHash :: "byte list"
  PubKey :: string
  R :: string
  S :: string

text \<open>\<^verbatim>\<open>shared.GameState\<close>: player locations and scores by identifier.\<close>

record GameState =
  PlayerLocs :: "string \<rightharpoonup> Coord"
  PlayerScores :: "string \<rightharpoonup> goint"

record PlayerNode =
  Identifier :: string
  GameState :: GameState

text \<open>\<^verbatim>\<open>NodeMessage\<close>, with the fields of both snapshots (\<^verbatim>\<open>Seq\<close> of the ACK snapshot,
  \<^verbatim>\<open>Score\<close> of the capture snapshot).\<close>

record NodeMessage =
  MsgIdentifier :: string
  MessageType :: string
  MsgGameState :: "GameState option"
  Move :: "Coord option"
  MsgSeq :: uint64
  MsgMoveCommit :: "MoveCommit option"
  Score :: goint
  Addr :: string

text \<open>\<^verbatim>\<open>PendingMessage\<close>: the recipient (\<open>''all''\<close> for a broadcast) and the message. The
  source stores the bytes that the GoVector log makes of the message
  (\<^verbatim>\<open>sendMessage\<close>); the model keeps the message itself.\<close>

record PendingMessage =
  Recipient :: string
  Message :: NodeMessage

text \<open>\<^verbatim>\<open>PendingMoveUpdates\<close>. The rejection count goes from 0 to \<^verbatim>\<open>REJECTION_MAX\<close>
  in steps of one and is an \<open>int\<close>.\<close>

record PendingMoveUpdates =
  Seq :: uint64
  Coord :: "Coord option"
  Rejected :: int

type_synonym UDPConn = string

text \<open>\<^verbatim>\<open>NodeCommInterface\<close>, with the fields the modelled functions read or write, and
  the package variable \<^verbatim>\<open>sequenceNumber\<close> of the ACK snapshot.\<close>

record node =
  PlayerNode :: PlayerNode
  LocalAddr :: string
  OtherNodes :: "(string \<times> UDPConn) list"
  MoveCommits :: "string \<rightharpoonup> string"
  MessagesToSend :: "PendingMessage list"
  NodesToDelete :: "string list"
  ACKSReceived :: "uint64 \<rightharpoonup> string list"
  MovesToSend :: "PendingMoveUpdates list"
  sequenceNumber :: uint64

text \<open>The errors of package \<^verbatim>\<open>wolferrors\<close>. Each is a string type in the source; the
  model keeps the value the message text is built from.\<close>

datatype error =
    InvalidMoveError Coord
  | OutOfBoundsError Coord
  | IncorrectPlayerError string
  | UnknownSequenceError uint64
  | InvalidPreyCaptureError Coord
  | InvalidScoreUpdateError goint

text \<open>What a call does: it returns (\<open>None\<close> is Go's \<^verbatim>\<open>nil\<close> error), or it panics with a
  nil pointer dereference.\<close>

datatype outcome = Returned "error option" | Panicked

section \<open>ACK bookkeeping\<close>

text \<open>\<^verbatim>\<open>HandleReceivedAck\<close> (ACK snapshot).\<close>

definition HandleReceivedAck :: "node \<Rightarrow> string \<Rightarrow> uint64 \<Rightarrow> error option \<times> node" where
  "HandleReceivedAck n addr seq =
     (case ACKSReceived n seq of
        None \<Rightarrow> (Some (UnknownSequenceError seq), n)
      | Some acks \<Rightarrow> (None, n\<lparr>ACKSReceived := (ACKSReceived n)(seq \<mapsto> acks @ [addr])\<rparr>))"

text \<open>One iteration of the loop of \<^verbatim>\<open>ManageAcks\<close>, for the pending move \<open>moveToSend\<close>
  received from the channel \<^verbatim>\<open>MovesToSend\<close>. \<open>REJECTION_MAX\<close> is the constant of the
  source. The goroutine sleeps in two places; \<open>during_sleep\<close> is what the other goroutines
  (the listener, the roster actor) do to the node meanwhile, the identity when they do
  nothing. A nil \<^verbatim>\<open>Coord\<close> is dereferenced in the quorum branch.

  The retry branch ends in a send on \<^verbatim>\<open>MovesToSend\<close>. The only receive from that
  channel in the source is the one at the head of this loop, so while the goroutine is in
  the send nothing takes the value: the goroutine stays in the send, holding the pending
  move with its incremented count. \<open>tracker\<close> is where the goroutine is after an
  iteration: at the receive again, in that send, or ended by a panic.\<close>

definition REJECTION_MAX :: int where
  "REJECTION_MAX = 3"

definition set_PlayerLoc :: "node \<Rightarrow> string \<Rightarrow> Coord \<Rightarrow> node" where
  "set_PlayerLoc n identifier c =
     n\<lparr>PlayerNode := (PlayerNode n)\<lparr>GameState := (GameState (PlayerNode n))
        \<lparr>PlayerLocs := (PlayerLocs (GameState (PlayerNode n)))(identifier \<mapsto> c)\<rparr>\<rparr>\<rparr>"

datatype tracker = Receiving | Sending PendingMoveUpdates | Crashed

definition ManageAcks_body ::
    "(node \<Rightarrow> node) \<Rightarrow> node \<Rightarrow> PendingMoveUpdates \<Rightarrow> tracker \<times> node" where
  "ManageAcks_body during_sleep n moveToSend =
     (case ACKSReceived n (Seq moveToSend) of
        None \<Rightarrow> (Receiving, n)
      | Some values \<Rightarrow>
          if length values > length (OtherNodes n) then
            (case Coord moveToSend of
               None \<Rightarrow> (Crashed, n)
             | Some c \<Rightarrow>
                 let n1 = during_sleep (set_PlayerLoc n (Identifier (PlayerNode n)) c);
                     addresses = (case ACKSReceived n1 (Seq moveToSend) of
                                    None \<Rightarrow> [] | Some late \<Rightarrow> late);
                     unresponsive = filter (\<lambda>addr. addr \<notin> set addresses) (map fst (OtherNodes n1))
                 in (Receiving,
                     n1\<lparr>NodesToDelete := NodesToDelete n1 @ unresponsive,
                        ACKSReceived := (ACKSReceived n1)(Seq moveToSend := None)\<rparr>))
          else if Rejected moveToSend < REJECTION_MAX then
            let n1 = during_sleep n
            in (Sending (moveToSend\<lparr>Rejected := Rejected moveToSend + 1\<rparr>), n1)
          else (Receiving, n\<lparr>ACKSReceived := (ACKSReceived n)(Seq moveToSend := None)\<rparr>))"

text \<open>The loop itself: each iteration receives the oldest pending move offered on the
  channel and runs the body on it; with nothing offered the goroutine waits at the receive
  (the state stays as it is). The source's loop has no exit; \<open>ManageAcks\<close> is its first
  \<open>k\<close> iterations. A panic ends it, and once the goroutine is in the send of the retry
  branch it makes no further iteration.\<close>

fun ManageAcks :: "(node \<Rightarrow> node) \<Rightarrow> nat \<Rightarrow> node \<Rightarrow> tracker \<times> node" where
  "ManageAcks during_sleep 0 n = (Receiving, n)"
| "ManageAcks during_sleep (Suc k) n =
     (case MovesToSend n of
        [] \<Rightarrow> (Receiving, n)
      | moveToSend # rest \<Rightarrow>
          (case ManageAcks_body during_sleep (n\<lparr>MovesToSend := rest\<rparr>) moveToSend of
             (Receiving, n') \<Rightarrow> ManageAcks during_sleep k n'
           | (Sending held, n') \<Rightarrow> (Sending held, n')
           | (Crashed, n') \<Rightarrow> (Crashed, n')))"

section \<open>Sending\<close>

text \<open>\<^verbatim>\<open>SendMoveToNodes\<close> of the capture snapshot and of the ACK snapshot.\<close>

definition SendMoveToNodes :: "node \<Rightarrow> Coord option \<Rightarrow> node" where
  "SendMoveToNodes n move =
     (case move of
        None \<Rightarrow> n
      | Some c \<Rightarrow>
          let message = \<lparr>MsgIdentifier = Identifier (PlayerNode n), MessageType = ''move'',
                         MsgGameState = None, Move = move, MsgSeq = 0, MsgMoveCommit = None,
                         Score = 0, Addr = LocalAddr n\<rparr>
          in n\<lparr>MessagesToSend := MessagesToSend n @ [\<lparr>Recipient = ''all'', Message = message\<rparr>]\<rparr>)"

definition SendMoveToNodes_ack :: "node \<Rightarrow> Coord option \<Rightarrow> node" where
  "SendMoveToNodes_ack n move =
     (case move of
        None \<Rightarrow> n
      | Some c \<Rightarrow>
          let n1 = n\<lparr>sequenceNumber := sequenceNumber n + 1\<rparr>;
              message = \<lparr>MsgIdentifier = Identifier (PlayerNode n1), MessageType = ''move'',
                         MsgGameState = None, Move = move, MsgSeq = sequenceNumber n1,
                         MsgMoveCommit = None, Score = 0, Addr = LocalAddr n1\<rparr>
          in n1\<lparr>MessagesToSend := MessagesToSend n1 @ [\<lparr>Recipient = ''all'', Message = message\<rparr>],
                MovesToSend := MovesToSend n1 @
                  [\<lparr>Seq = sequenceNumber n1, Coord = move, Rejected = 0\<rparr>]\<rparr>)"

text \<open>\<^verbatim>\<open>SendACK\<close> (ACK snapshot).\<close>

definition SendACK :: "node \<Rightarrow> string \<Rightarrow> uint64 \<Rightarrow> node" where
  "SendACK n identifier seq =
     (let message = \<lparr>MsgIdentifier = Identifier (PlayerNode n), MessageType = ''ack'',
                     MsgGameState = None, Move = None, MsgSeq = seq, MsgMoveCommit = None,
                     Score = 0, Addr = LocalAddr n\<rparr>
      in n\<lparr>MessagesToSend := MessagesToSend n @ [\<lparr>Recipient = identifier, Message = message\<rparr>]\<rparr>)"

section \<open>Commitment hashing\<close>

text \<open>\<^verbatim>\<open>crypto/md5\<close>, after RFC 1321: the message is padded to a multiple of 64 bytes and
  digested block by block.\<close>

definition md5_shifts :: "nat list" where
  "md5_shifts =
     [7, 12, 17, 22, 7, 12, 17, 22, 7, 12, 17, 22, 7, 12, 17, 22,
      5, 9, 14, 20, 5, 9, 14, 20, 5, 9, 14, 20, 5, 9, 14, 20,
      4, 11, 16, 23, 4, 11, 16, 23, 4, 11, 16, 23, 4, 11, 16, 23,
      6, 10, 15, 21, 6, 10, 15, 21, 6, 10, 15, 21, 6, 10, 15, 21]"

definition md5_table :: "32 word list" where
  "md5_table =
     [0xd76aa478, 0xe8c7b756, 0x242070db, 0xc1bdceee,
      0xf57c0faf, 0x4787c62a, 0xa8304613, 0xfd469501,
      0x698098d8, 0x8b44f7af, 0xffff5bb1, 0x895cd7be,
      0x6b901122, 0xfd987193, 0xa679438e, 0x49b40821,
      0xf61e2562, 0xc040b340, 0x265e5a51, 0xe9b6c7aa,
      0xd62f105d, 0x02441453, 0xd8a1e681, 0xe7d3fbc8,
      0x21e1cde6, 0xc33707d6, 0xf4d50d87, 0x455a14ed,
      0xa9e3e905, 0xfcefa3f8, 0x676f02d9, 0x8d2a4c8a,
      0xfffa3942, 0x8771f681, 0x6d9d6122, 0xfde5380c,
      0xa4beea44, 0x4bdecfa9, 0xf6bb4b60, 0xbebfbc70,
      0x289b7ec6, 0xeaa127fa, 0xd4ef3085, 0x04881d05,
      0xd9d4d039, 0xe6db99e5, 0x1fa27cf8, 0xc4ac5665,
      0xf4292244, 0x432aff97, 0xab9423a7, 0xfc93a039,
      0x655b59c3, 0x8f0ccc92, 0xffeff47d, 0x85845dd1,
      0x6fa87e4f, 0xfe2ce6e0, 0xa3014314, 0x4e0811a1,
      0xf7537e82, 0xbd3af235, 0x2ad7d2bb, 0xeb86d391]"

definition RotateLeft32 :: "32 word \<Rightarrow> nat \<Rightarrow> 32 word" where
  "RotateLeft32 x k = push_bit k x OR drop_bit (32 - k) x"

definition le_uint32 :: "byte list \<Rightarrow> 32 word" where
  "le_uint32 bs = foldr (\<lambda>b w. ucast b OR push_bit 8 w) bs 0"

definition le_bytes :: "nat \<Rightarrow> 'a::len word \<Rightarrow> byte list" where
  "le_bytes k w = map (\<lambda>i. ucast (drop_bit (8 * i) w)) [0..<k]"

fun md5_words :: "nat \<Rightarrow> byte list \<Rightarrow> 32 word list" where
  "md5_words 0 bs = []"
| "md5_words (Suc k) bs = le_uint32 (take 4 bs) # md5_words k (drop 4 bs)"

type_synonym md5_state = "32 word \<times> 32 word \<times> 32 word \<times> 32 word"

definition md5_step :: "32 word list \<Rightarrow> nat \<Rightarrow> md5_state \<Rightarrow> md5_state" where
  "md5_step m i st =
     (case st of (a, b, c, d) \<Rightarrow>
        let (f, g) =
              (if i < 16 then ((b AND c) OR (NOT b AND d), i)
               else if i < 32 then ((d AND b) OR (NOT d AND c), (5 * i + 1) mod 16)
               else if i < 48 then (b XOR c XOR d, (3 * i + 5) mod 16)
               else (c XOR (b OR NOT d), (7 * i) mod 16))
        in (d, b + RotateLeft32 (f + a + md5_table ! i + m ! g) (md5_shifts ! i), b, c))"

definition md5_block :: "md5_state \<Rightarrow> byte list \<Rightarrow> md5_state" where
  "md5_block st chunk =
     (case st of (a0, b0, c0, d0) \<Rightarrow>
        case fold (md5_step (md5_words 16 chunk)) [0..<64] st of (a, b, c, d) \<Rightarrow>
          (a0 + a, b0 + b, c0 + c, d0 + d))"

definition md5_pad :: "byte list \<Rightarrow> byte list" where
  "md5_pad bs =
     bs @ [0x80] @ replicate ((119 - length bs mod 64) mod 64) 0
        @ le_bytes 8 (push_bit 3 (of_nat (length bs) :: 64 word))"

fun md5_blocks :: "nat \<Rightarrow> md5_state \<Rightarrow> byte list \<Rightarrow> md5_state" where
  "md5_blocks 0 st bs = st"
| "md5_blocks (Suc k) st bs = md5_blocks k (md5_block st (take 64 bs)) (drop 64 bs)"

definition md5_Sum :: "byte list \<Rightarrow> byte list" where
  "md5_Sum bs =
     (let p = md5_pad bs in
      case md5_blocks (length p div 64) (0x67452301, 0xefcdab89, 0x98badcfe, 0x10325476) p
      of (a, b, c, d) \<Rightarrow> concat (map (\<lambda>w. le_bytes 4 w) [a, b, c, d]))"


text \<open>\<^verbatim>\<open>hex.EncodeToString\<close>.\<close>

definition hextable :: string where
  "hextable = ''0123456789abcdef''"

definition EncodeToString :: "byte list \<Rightarrow> string" where
  "EncodeToString src =
     concat (map (\<lambda>v. [hextable ! unat (drop_bit 4 v), hextable ! unat (v AND 0x0f)]) src)"

text \<open>\<^verbatim>\<open>strconv.AppendInt\<close> in base 10, the only base the source asks for.\<close>

fun FormatUint :: "nat \<Rightarrow> string" where
  "FormatUint u =
     (if u < 10 then [''0123456789'' ! u]
      else FormatUint (u div 10) @ [''0123456789'' ! (u mod 10)])"

definition FormatInt :: "int \<Rightarrow> string" where
  "FormatInt i = (if i < 0 then CHR ''-'' # FormatUint (nat (- i)) else FormatUint (nat i))"

definition AppendInt :: "byte list \<Rightarrow> int \<Rightarrow> byte list" where
  "AppendInt dst i = dst @ map of_char (FormatInt i)"

text \<open>\<^verbatim>\<open>strconv.AppendQuote\<close>: the string as a double-quoted Go literal. The quote and
  the backslash are escaped, printable ASCII is kept, control characters are escaped by
  name or as \<^verbatim>\<open>\x\<close> and two digits. A byte from 0x80 on is rendered the way Go
  renders a byte that is not part of valid UTF-8 (\<^verbatim>\<open>\x\<close> and two digits); identifiers
  here are \<open>''prey''\<close> or decimal numerals, and the runes beyond ASCII are not modelled.\<close>

definition appendEscaped :: "char \<Rightarrow> string" where
  "appendEscaped c =
     (let b = (of_char c :: nat) in
      if c = CHR 0x22 \<or> c = CHR 0x5C then [CHR 0x5C, c]
      else if 0x20 \<le> b \<and> b < 0x7F then [c]
      else if c = CHR 0x07 then [CHR 0x5C, CHR ''a'']
      else if c = CHR 0x08 then [CHR 0x5C, CHR ''b'']
      else if c = CHR 0x0C then [CHR 0x5C, CHR ''f'']
      else if c = CHR 0x0A then [CHR 0x5C, CHR ''n'']
      else if c = CHR 0x0D then [CHR 0x5C, CHR ''r'']
      else if c = CHR 0x09 then [CHR 0x5C, CHR ''t'']
      else if c = CHR 0x0B then [CHR 0x5C, CHR ''v'']
      else [CHR 0x5C, CHR ''x'', hextable ! (b div 16), hextable ! (b mod 16)])"

definition AppendQuote :: "byte list \<Rightarrow> string \<Rightarrow> byte list" where
  "AppendQuote dst s =
     dst @ map of_char ([CHR 0x22] @ concat (map appendEscaped s) @ [CHR 0x22])"

text \<open>\<^verbatim>\<open>CalculateHash\<close>: the same body in both snapshots (a method in one, a function in
  the other; the receiver is not read). \<^verbatim>\<open>make([]byte, 2048)\<close> is 2048 zero bytes, and
  the three appends go after them.\<close>

definition CalculateHash :: "Coord \<Rightarrow> string \<Rightarrow> byte list" where
  "CalculateHash m ident =
     (let arr = replicate 2048 0;
          arr = AppendInt arr (X m);
          arr = AppendInt arr (Y m);
          arr = AppendQuote arr ident
      in md5_Sum arr)"

text \<open>\<^verbatim>\<open>CheckMoveCommitAgainstMove\<close>: the loop over \<^verbatim>\<open>MoveCommits\<close> returns true at an
  entry whose key is the identifier and whose value is the hash, so exactly when the entry
  stored for the identifier is the hash.\<close>

definition CheckMoveCommitAgainstMove :: "node \<Rightarrow> string \<Rightarrow> Coord \<Rightarrow> bool" where
  "CheckMoveCommitAgainstMove n identifier move =
     (let hash = EncodeToString (CalculateHash move identifier)
      in MoveCommits n identifier = Some hash)"


section \<open>Move checks\<close>

text \<open>The grid manager of package \<^verbatim>\<open>geometry\<close>, made from the settings of the node's
  game configuration, which no function here changes: its two tests are parameters.\<close>

record grid =
  IsInBounds :: "Coord \<Rightarrow> bool"
  IsValidMove :: "Coord \<Rightarrow> bool"

text \<open>\<^verbatim>\<open>CheckMoveIsValid\<close> of the capture snapshot and of the ACK snapshot.\<close>

definition CheckMoveIsValid :: "grid \<Rightarrow> Coord \<Rightarrow> error option" where
  "CheckMoveIsValid gridManager move =
     (if \<not> IsValidMove gridManager move then Some (InvalidMoveError move) else None)"

definition CheckMoveIsValid_ack :: "grid \<Rightarrow> Coord \<Rightarrow> error option" where
  "CheckMoveIsValid_ack gridManager move =
     (if \<not> IsInBounds gridManager move then Some (OutOfBoundsError move)
      else if \<not> IsValidMove gridManager move then Some (InvalidMoveError move)
      else None)"

text \<open>\<^verbatim>\<open>CheckGotPrey\<close>: a key that is not in a Go map reads as the zero value.\<close>

definition CheckGotPrey :: "node \<Rightarrow> Coord \<Rightarrow> error option" where
  "CheckGotPrey n move =
     (let prey = (case PlayerLocs (GameState (PlayerNode n)) ''prey'' of
                    None \<Rightarrow> \<lparr>X = 0, Y = 0\<rparr> | Some c \<Rightarrow> c)
      in if X move = X prey \<and> Y move = Y prey then None
         else Some (InvalidPreyCaptureError move))"

section \<open>Authenticity of a move commitment\<close>

text \<open>The functions of other packages that \<^verbatim>\<open>CheckAuthenticityOfMoveCommit\<close> calls:
  \<^verbatim>\<open>key.PublicKeyStringToKey\<close>, the integer that \<^verbatim>\<open>fmt.Sscan\<close> leaves in a fresh
  \<^verbatim>\<open>big.Int\<close> (its error is only printed), and \<^verbatim>\<open>ecdsa.Verify\<close>.\<close>

type_synonym PublicKey = "int \<times> int"

record crypto =
  PublicKeyStringToKey :: "string \<Rightarrow> PublicKey"
  Sscan :: "string \<Rightarrow> int"
  Verify :: "PublicKey \<Rightarrow> byte list \<Rightarrow> int \<Rightarrow> int \<Rightarrow> bool"

definition CheckAuthenticityOfMoveCommit :: "crypto \<Rightarrow> MoveCommit \<Rightarrow> bool" where
  "CheckAuthenticityOfMoveCommit k m =
     (let publicKey = PublicKeyStringToKey k (PubKey m);
          rBigInt = Sscan k (R m);
          sBigInt = Sscan k (S m)
      in Verify k publicKey (MoveHash m) rBigInt sBigInt)"

section \<open>Handlers of received messages\<close>

text \<open>\<^verbatim>\<open>HandleReceivedMoveL\<close>. The deferred \<^verbatim>\<open>delete(n.MoveCommits, identifier)\<close> runs
  when the function returns and when it panics. With a nil move the last line reads
  \<^verbatim>\<open>move.X\<close> for the error text: a nil pointer dereference. The two snapshots differ in
  \<^verbatim>\<open>CheckMoveIsValid\<close> (and in a lock around the assignment).\<close>

definition delete_MoveCommit :: "node \<Rightarrow> string \<Rightarrow> node" where
  "delete_MoveCommit n identifier = n\<lparr>MoveCommits := (MoveCommits n)(identifier := None)\<rparr>"

definition HandleReceivedMoveL :: "grid \<Rightarrow> node \<Rightarrow> string \<Rightarrow> Coord option \<Rightarrow> outcome \<times> node" where
  "HandleReceivedMoveL g n identifier move =
     (case move of
        None \<Rightarrow> (Panicked, delete_MoveCommit n identifier)
      | Some c \<Rightarrow>
          if CheckMoveCommitAgainstMove n identifier c then
            (case CheckMoveIsValid g c of
               Some err \<Rightarrow> (Returned (Some err), delete_MoveCommit n identifier)
             | None \<Rightarrow> (Returned None, delete_MoveCommit (set_PlayerLoc n identifier c) identifier))
          else (Returned (Some (InvalidMoveError c)), delete_MoveCommit n identifier))"

definition HandleReceivedMoveL_ack :: "grid \<Rightarrow> node \<Rightarrow> string \<Rightarrow> Coord option \<Rightarrow> outcome \<times> node" where
  "HandleReceivedMoveL_ack g n identifier move =
     (case move of
        None \<Rightarrow> (Panicked, delete_MoveCommit n identifier)
      | Some c \<Rightarrow>
          if CheckMoveCommitAgainstMove n identifier c then
            (case CheckMoveIsValid_ack g c of
               Some err \<Rightarrow> (Returned (Some err), delete_MoveCommit n identifier)
             | None \<Rightarrow> (Returned None, delete_MoveCommit (set_PlayerLoc n identifier c) identifier))
          else (Returned (Some (InvalidMoveError c)), delete_MoveCommit n identifier))"

text \<open>\<^verbatim>\<open>HandleReceivedMoveNL\<close>: the capture snapshot sends no ACK, the ACK snapshot does.
  A nil move panics at \<^verbatim>\<open>move.X\<close> as above.\<close>

definition HandleReceivedMoveNL :: "grid \<Rightarrow> node \<Rightarrow> string \<Rightarrow> Coord option \<Rightarrow> outcome \<times> node" where
  "HandleReceivedMoveNL g n identifier move =
     (case move of
        None \<Rightarrow> (Panicked, n)
      | Some c \<Rightarrow>
          (case CheckMoveIsValid g c of
             Some err \<Rightarrow> (Returned (Some err), n)
           | None \<Rightarrow> (Returned None, set_PlayerLoc n identifier c)))"

definition HandleReceivedMoveNL_ack ::
    "grid \<Rightarrow> node \<Rightarrow> string \<Rightarrow> Coord option \<Rightarrow> uint64 \<Rightarrow> outcome \<times> node" where
  "HandleReceivedMoveNL_ack g n identifier move seq =
     (case move of
        None \<Rightarrow> (Panicked, n)
      | Some c \<Rightarrow>
          (case CheckMoveIsValid_ack g c of
             Some err \<Rightarrow> (Returned (Some err), n)
           | None \<Rightarrow> (Returned None, SendACK (set_PlayerLoc n identifier c) identifier seq)))"

text \<open>\<^verbatim>\<open>HandleReceivedMoveCommit\<close> (the same in both snapshots). The authenticity check
  reads the fields of the commitment, so a nil commitment panics.\<close>

definition HandleReceivedMoveCommit ::
    "crypto \<Rightarrow> node \<Rightarrow> string \<Rightarrow> MoveCommit option \<Rightarrow> outcome \<times> node" where
  "HandleReceivedMoveCommit k n identifier moveCommit =
     (case moveCommit of
        None \<Rightarrow> (Panicked, n)
      | Some mc \<Rightarrow>
          if CheckAuthenticityOfMoveCommit k mc then
            (case MoveCommits n identifier of
               None \<Rightarrow> (Returned None,
                         n\<lparr>MoveCommits := (MoveCommits n)(identifier \<mapsto> EncodeToString (MoveHash mc))\<rparr>)
             | Some stored \<Rightarrow> (Returned None, n))
          else (Returned (Some (IncorrectPlayerError identifier)), n))"

text \<open>\<^verbatim>\<open>HandleCapturedPreyRequest\<close> (capture snapshot). The move is dereferenced first.
  \<^verbatim>\<open>playerScore\<close> is a local copy of the recorded score: the test compares it with its
  own successor, and the increment after the test is of the copy.\<close>

definition HandleCapturedPreyRequest ::
    "grid \<Rightarrow> node \<Rightarrow> string \<Rightarrow> Coord option \<Rightarrow> goint \<Rightarrow> outcome \<times> node" where
  "HandleCapturedPreyRequest g n identifier move score =
     (case move of
        None \<Rightarrow> (Panicked, n)
      | Some c \<Rightarrow>
          (case CheckGotPrey n c of
             Some err \<Rightarrow> (Returned (Some err), n)
           | None \<Rightarrow>
               (case CheckMoveIsValid g c of
                  Some err \<Rightarrow> (Returned (Some err), n)
                | None \<Rightarrow>
                    let playerScore = (case PlayerScores (GameState (PlayerNode n)) identifier of
                                         None \<Rightarrow> 0 | Some v \<Rightarrow> v)
                    in if playerScore \<noteq> playerScore + 1
                       then (Returned (Some (InvalidScoreUpdateError score)), n)
                       else (Returned None, n))))"

section \<open>Example states\<close>

text \<open>A node \<open>''1''\<close> with three peers, the prey at (2, 3), a recorded score of 4 for
  player \<open>''2''\<close>, and an ACK entry for sequence number 7 with three acks.\<close>

definition node0 :: node where
  "node0 =
     \<lparr>PlayerNode = \<lparr>Identifier = ''1'',
                     GameState = \<lparr>PlayerLocs = [''prey'' \<mapsto> \<lparr>X = 2, Y = 3\<rparr>],
                                  PlayerScores = [''2'' \<mapsto> 4]\<rparr>\<rparr>,
      LocalAddr = ''127.0.0.1:9001'',
      OtherNodes = [(''2'', ''127.0.0.1:9002''), (''3'', ''127.0.0.1:9003''),
                    (''prey'', ''127.0.0.1:9004'')],
      MoveCommits = Map.empty,
      MessagesToSend = [],
      NodesToDelete = [],
      ACKSReceived = [7 \<mapsto> [''127.0.0.1:9002'', ''127.0.0.1:9003'', ''127.0.0.1:9004'']],
      MovesToSend = [],
      sequenceNumber = 7\<rparr>"

text \<open>A 10 by 10 grid on which every cell but the wall at (5, 5) is a valid move.\<close>

definition grid0 :: grid where
  "grid0 =
     \<lparr>IsInBounds = (\<lambda>c. 0 \<le> X c \<and> X c < 10 \<and> 0 \<le> Y c \<and> Y c < 10),
      IsValidMove = (\<lambda>c. 0 \<le> X c \<and> X c < 10 \<and> 0 \<le> Y c \<and> Y c < 10 \<and>
                          \<not> (X c = 5 \<and> Y c = 5))\<rparr>"


text \<open>A stand-in for the cryptography: the key is read as the length of its text, a
  number as the length of its text, and a signature verifies when both of its numbers are
  the key's. \<open>commit0\<close> verifies under it and \<open>forged0\<close> does not.\<close>

definition crypto0 :: crypto where
  "crypto0 =
     \<lparr>PublicKeyStringToKey = (\<lambda>s. (int (length s), 0)),
      Sscan = (\<lambda>s. int (length s)),
      Verify = (\<lambda>key hash r s. r = fst key \<and> s = fst key)\<rparr>"

definition commit0 :: MoveCommit where
  "commit0 = \<lparr>MoveHash = [0xab, 0x01], PubKey = ''key'', R = ''123'', S = ''456''\<rparr>"

definition forged0 :: MoveCommit where
  "forged0 = \<lparr>MoveHash = [0xcd, 0x02], PubKey = ''key'', R = ''12'', S = ''456''\<rparr>"

text \<open>\<open>node0\<close> after the prey committed to the move (2, 4).\<close>

definition node1 :: node where
  "node1 =
     node0\<lparr>MoveCommits :=
       [''prey'' \<mapsto> EncodeToString (CalculateHash \<lparr>X = 2, Y = 4\<rparr> ''prey'')]\<rparr>"

text \<open>The pending move of \<open>node0\<close> with sequence number 7, to the cell (2, 4).\<close>

definition move7 :: PendingMoveUpdates where
  "move7 = \<lparr>Seq = 7, Coord = Some \<lparr>X = 2, Y = 4\<rparr>, Rejected = 0\<rparr>"

section \<open>Facts about the example states\<close>

lemma node0_facts:
  "length (OtherNodes node0) = 3"
  "ACKSReceived node0 7 = Some [''127.0.0.1:9002'', ''127.0.0.1:9003'', ''127.0.0.1:9004'']"
  "Identifier (PlayerNode node0) = ''1''"
  "PlayerLocs (GameState (PlayerNode node0)) ''1'' = None"
  "MovesToSend node0 = []"
  by (simp_all add: node0_def)

lemma move7_facts:
  "Seq move7 = 7" "Coord move7 = Some \<lparr>X = 2, Y = 4\<rparr>" "Rejected move7 = 0"
  by (simp_all add: move7_def)

lemma grid0_facts:
  "IsInBounds grid0 \<lparr>X = 2, Y = 4\<rparr>" "IsValidMove grid0 \<lparr>X = 2, Y = 4\<rparr>"
  "\<not> IsInBounds grid0 \<lparr>X = 12, Y = 3\<rparr>"
  "IsInBounds grid0 \<lparr>X = 5, Y = 5\<rparr>" "\<not> IsValidMove grid0 \<lparr>X = 5, Y = 5\<rparr>"
  by (simp_all add: grid0_def)

lemma auth_commit0: "CheckAuthenticityOfMoveCommit crypto0 commit0"
  by (simp add: CheckAuthenticityOfMoveCommit_def crypto0_def commit0_def)

lemma auth_forged0: "\<not> CheckAuthenticityOfMoveCommit crypto0 forged0"
  by (simp add: CheckAuthenticityOfMoveCommit_def crypto0_def forged0_def)

lemma hex_commit0: "EncodeToString (MoveHash commit0) = ''ab01''"
  by (simp add: EncodeToString_def commit0_def hextable_def drop_bit_eq_div)

section \<open>The digest\<close>

text \<open>The digest of \<open>''abc''\<close> is the one RFC 1321 lists.\<close>

lemma md5_Sum_abc:
  "EncodeToString (md5_Sum (map of_char ''abc'')) = ''900150983cd24fb0d6963f7d28e17f72''"
  by code_simp

text \<open>The decimal texts of the two components are appended with nothing between them, so
  the bytes digested for (1, 23) and for (12, 3) are the same.\<close>

lemma hash_input_collision:
  "AppendInt (AppendInt arr 1) 23 = AppendInt (AppendInt arr 12) 3"
  by (simp add: AppendInt_def FormatInt_def)

text \<open>
  Claim C4. The claim: for distinct coordinates \<open>C1\<close> and \<open>C2\<close> and an identifier \<open>I\<close>
  the digests \<open>CalculateHash C1 I\<close> and \<open>CalculateHash C2 I\<close> differ, and the digest
  is a function of the two components and the identifier only. The second half holds of
  the definition. The first fails: the coordinates (1, 23) and (12, 3) have the same
  digest for the identifier \<open>''prey''\<close>.
\<close>

theorem CalculateHash_collision:
  "CalculateHash \<lparr>X = 1, Y = 23\<rparr> ''prey'' = CalculateHash \<lparr>X = 12, Y = 3\<rparr> ''prey''"
proof -
  have "AppendInt (AppendInt (replicate 2048 0) 1) 23 = AppendInt (AppendInt (replicate 2048 0) 12) 3"
    by (rule hash_input_collision)
  then show ?thesis
    by (simp only: CalculateHash_def Let_def Coord.simps)
qed

text \<open>A commitment to (1, 23) is therefore accepted for the revealed move (12, 3).\<close>

lemma commitment_accepts_colliding_move:
  "CheckMoveCommitAgainstMove
     (n\<lparr>MoveCommits := [''prey'' \<mapsto> EncodeToString (CalculateHash \<lparr>X = 1, Y = 23\<rparr> ''prey'')]\<rparr>)
     ''prey'' \<lparr>X = 12, Y = 3\<rparr>"
proof -
  have "AppendInt (AppendInt (replicate 2048 0) 1) 23 = AppendInt (AppendInt (replicate 2048 0) 12) 3"
    by (simp add: AppendInt_def FormatInt_def)
  then have "CalculateHash \<lparr>X = 1, Y = 23\<rparr> ''prey'' = CalculateHash \<lparr>X = 12, Y = 3\<rparr> ''prey''"
    by (simp only: CalculateHash_def Let_def Coord.simps)
  then show ?thesis
    by (simp add: CheckMoveCommitAgainstMove_def)
qed

section \<open>Properties of the ACK handler\<close>

text \<open>
  Claim C7. \<^verbatim>\<open>HandleReceivedAck\<close> called with sequence number \<open>seq\<close> returns the
  unknown-sequence error exactly when the ledger \<^verbatim>\<open>ACKSReceived\<close> has no entry for
  \<open>seq\<close>, and then the node is left as it was (no entry is created); when there is an
  entry, the sender's address is appended to it and no error is returned.
\<close>

theorem HandleReceivedAck_unknown_sequence:
  "(fst (HandleReceivedAck n addr seq) = Some (UnknownSequenceError seq)) = (ACKSReceived n seq = None)
   \<and> (fst (HandleReceivedAck n addr seq) = None) = (ACKSReceived n seq \<noteq> None)
   \<and> (ACKSReceived n seq = None \<longrightarrow> snd (HandleReceivedAck n addr seq) = n)
   \<and> (\<forall>acks. ACKSReceived n seq = Some acks \<longrightarrow>
         HandleReceivedAck n addr seq =
           (None, n\<lparr>ACKSReceived := (ACKSReceived n)(seq \<mapsto> acks @ [addr])\<rparr>))"
  by (cases "ACKSReceived n seq") (simp_all add: HandleReceivedAck_def)

theorem HandleReceivedAck_unknown_sequence_witness:
  "ACKSReceived node0 8 = None
   \<and> HandleReceivedAck node0 ''127.0.0.1:9002'' 8 = (Some (UnknownSequenceError 8), node0)
   \<and> ACKSReceived node0 7 = Some [''127.0.0.1:9002'', ''127.0.0.1:9003'', ''127.0.0.1:9004'']
   \<and> HandleReceivedAck node0 ''127.0.0.1:9002'' 7 =
       (None, node0\<lparr>ACKSReceived := (ACKSReceived node0)
          (7 \<mapsto> [''127.0.0.1:9002'', ''127.0.0.1:9003'', ''127.0.0.1:9004'', ''127.0.0.1:9002''])\<rparr>)"
proof -
  have absent: "ACKSReceived node0 8 = None"
    by (simp add: node0_def)
  have present: "ACKSReceived node0 7 = Some [''127.0.0.1:9002'', ''127.0.0.1:9003'', ''127.0.0.1:9004'']"
    by (simp add: node0_def)
  from HandleReceivedAck_unknown_sequence [of node0 "''127.0.0.1:9002''" 8] absent
  have "HandleReceivedAck node0 ''127.0.0.1:9002'' 8 = (Some (UnknownSequenceError 8), node0)"
    by (simp add: prod_eq_iff)
  moreover from HandleReceivedAck_unknown_sequence [of node0 "''127.0.0.1:9002''" 7] present
  have "HandleReceivedAck node0 ''127.0.0.1:9002'' 7 =
       (None, node0\<lparr>ACKSReceived := (ACKSReceived node0)
          (7 \<mapsto> [''127.0.0.1:9002'', ''127.0.0.1:9003'', ''127.0.0.1:9004'', ''127.0.0.1:9002''])\<rparr>)"
    by simp
  ultimately show ?thesis using absent present by simp
qed

text \<open>
  Claim C6, as the code has it. The claim reads the ledger entry as a set of peers, so
  that a repeated ack could not advance a move towards quorum. The entry is a list: an ack
  for a known sequence number is appended whoever sent it, the list grows by one also when
  the address is already in it (the set of recorded addresses is then the same), and the
  quorum test of \<^verbatim>\<open>ManageAcks\<close> compares the length of the list, repeats counted, with
  the size of the roster.
\<close>

theorem HandleReceivedAck_counts_repeats:
  assumes "ACKSReceived n seq = Some acks"
  shows "ACKSReceived (snd (HandleReceivedAck n addr seq)) seq = Some (acks @ [addr])
         \<and> length (acks @ [addr]) = length acks + 1
         \<and> (addr \<in> set acks \<longrightarrow> set (acks @ [addr]) = set acks)
         \<and> (\<forall>mv c. Seq mv = seq \<and> Coord mv = Some c \<and> length (OtherNodes n) < length acks + 1 \<longrightarrow>
              PlayerLocs (GameState (PlayerNode
                (snd (ManageAcks_body id (snd (HandleReceivedAck n addr seq)) mv))))
                (Identifier (PlayerNode n)) = Some c)"
  using assms
  by (auto simp add: ManageAcks_body_def HandleReceivedAck_def set_PlayerLoc_def Let_def)

theorem HandleReceivedAck_counts_repeats_witness:
  "ACKSReceived node0 7 = Some [''127.0.0.1:9002'', ''127.0.0.1:9003'', ''127.0.0.1:9004'']
   \<and> ''127.0.0.1:9003'' \<in> set [''127.0.0.1:9002'', ''127.0.0.1:9003'', ''127.0.0.1:9004'']
   \<and> ACKSReceived (snd (HandleReceivedAck node0 ''127.0.0.1:9003'' 7)) 7 =
       Some [''127.0.0.1:9002'', ''127.0.0.1:9003'', ''127.0.0.1:9004'', ''127.0.0.1:9003'']
   \<and> length (OtherNodes node0) < 4
   \<and> PlayerLocs (GameState (PlayerNode
        (snd (ManageAcks_body id (snd (HandleReceivedAck node0 ''127.0.0.1:9003'' 7)) move7)))) ''1'' =
       Some \<lparr>X = 2, Y = 4\<rparr>"
  using HandleReceivedAck_counts_repeats [of node0 7 _ "''127.0.0.1:9003''"] node0_facts move7_facts
  by simp

text \<open>The claim C6 as stated fails on \<open>node0\<close>: each of the three peers has acked once and
  there is no quorum; a second ack from the first peer leaves the set of recorded addresses
  as it was, and the move is applied.\<close>

theorem repeated_ack_reaches_quorum:
  "map fst (OtherNodes node0) = [''2'', ''3'', ''prey'']
   \<and> ACKSReceived node0 7 = Some [''127.0.0.1:9002'', ''127.0.0.1:9003'', ''127.0.0.1:9004'']
   \<and> PlayerLocs (GameState (PlayerNode (snd (ManageAcks_body id node0 move7)))) ''1'' = None
   \<and> ACKSReceived (snd (HandleReceivedAck node0 ''127.0.0.1:9002'' 7)) 7 =
       Some [''127.0.0.1:9002'', ''127.0.0.1:9003'', ''127.0.0.1:9004'', ''127.0.0.1:9002'']
   \<and> set [''127.0.0.1:9002'', ''127.0.0.1:9003'', ''127.0.0.1:9004'', ''127.0.0.1:9002''] =
       set [''127.0.0.1:9002'', ''127.0.0.1:9003'', ''127.0.0.1:9004'']
   \<and> PlayerLocs (GameState (PlayerNode
        (snd (ManageAcks_body id (snd (HandleReceivedAck node0 ''127.0.0.1:9002'' 7)) move7)))) ''1'' =
       Some \<lparr>X = 2, Y = 4\<rparr>"
  by (auto simp add: ManageAcks_body_def HandleReceivedAck_def set_PlayerLoc_def Let_def
      REJECTION_MAX_def node0_def move7_def)

section \<open>Properties of the quorum loop\<close>

lemma GameState_set_PlayerLoc:
  "PlayerLocs (GameState (PlayerNode (set_PlayerLoc n identifier c))) =
     (PlayerLocs (GameState (PlayerNode n)))(identifier \<mapsto> c)"
  by (simp add: set_PlayerLoc_def)

text \<open>
  Claim C2. A move of this node with sequence number \<open>Seq mv\<close> is applied to the local
  game state only when the number of acks recorded for it is strictly greater than the size
  of the peer roster: with a ledger entry longer than the roster the game state after the
  iteration is the one with the move applied (and whatever the other goroutines did during
  the sleep); with no entry, or an entry not longer than the roster, the iteration does not
  write the game state. With three peers, three acks do not apply the move and four do.
\<close>

theorem ManageAcks_strict_quorum:
  "(\<forall>values c. ACKSReceived n (Seq mv) = Some values \<longrightarrow>
        length (OtherNodes n) < length values \<longrightarrow> Coord mv = Some c \<longrightarrow>
        GameState (PlayerNode (snd (ManageAcks_body during_sleep n mv))) =
          GameState (PlayerNode (during_sleep (set_PlayerLoc n (Identifier (PlayerNode n)) c))))
   \<and> ((\<forall>values. ACKSReceived n (Seq mv) = Some values \<longrightarrow>
          \<not> length (OtherNodes n) < length values) \<longrightarrow>
        GameState (PlayerNode (snd (ManageAcks_body during_sleep n mv))) = GameState (PlayerNode n)
        \<or> GameState (PlayerNode (snd (ManageAcks_body during_sleep n mv))) =
            GameState (PlayerNode (during_sleep n)))"
  by (cases "ACKSReceived n (Seq mv)") (simp_all add: ManageAcks_body_def Let_def)

theorem ManageAcks_strict_quorum_witness:
  "length (OtherNodes node0) = 3
   \<and> ACKSReceived node0 7 = Some [''127.0.0.1:9002'', ''127.0.0.1:9003'', ''127.0.0.1:9004'']
   \<and> GameState (PlayerNode (snd (ManageAcks_body id node0 move7))) = GameState (PlayerNode node0)
   \<and> ACKSReceived (snd (HandleReceivedAck node0 ''127.0.0.1:9005'' 7)) 7 =
       Some [''127.0.0.1:9002'', ''127.0.0.1:9003'', ''127.0.0.1:9004'', ''127.0.0.1:9005'']
   \<and> PlayerLocs (GameState (PlayerNode
        (snd (ManageAcks_body id (snd (HandleReceivedAck node0 ''127.0.0.1:9005'' 7)) move7)))) ''1'' =
       Some \<lparr>X = 2, Y = 4\<rparr>"
proof -
  let ?n4 = "snd (HandleReceivedAck node0 ''127.0.0.1:9005'' 7)"
  have n4: "ACKSReceived ?n4 7 =
      Some [''127.0.0.1:9002'', ''127.0.0.1:9003'', ''127.0.0.1:9004'', ''127.0.0.1:9005'']"
    "length (OtherNodes ?n4) = 3" "Identifier (PlayerNode ?n4) = ''1''"
    by (simp_all add: HandleReceivedAck_def node0_def)
  have three: "GameState (PlayerNode (snd (ManageAcks_body id node0 move7))) = GameState (PlayerNode node0)"
    using ManageAcks_strict_quorum [of node0 move7 id] node0_facts move7_facts by simp
  have four: "GameState (PlayerNode (snd (ManageAcks_body id ?n4 move7))) =
      GameState (PlayerNode (id (set_PlayerLoc ?n4 (Identifier (PlayerNode ?n4)) \<lparr>X = 2, Y = 4\<rparr>)))"
    using ManageAcks_strict_quorum [of ?n4 move7 id] n4 move7_facts by simp
  show ?thesis using three node0_facts n4
    by (simp add: four GameState_set_PlayerLoc)
qed

text \<open>What one iteration does with a pending move that has a ledger entry and no quorum:
  with a rejection count below \<open>REJECTION_MAX\<close> the count is incremented and the goroutine
  goes into the send; otherwise the ledger entry is deleted and the game state is not
  written.\<close>

lemma ManageAcks_body_no_quorum:
  assumes "ACKSReceived n (Seq mv) = Some values"
    and "\<not> length (OtherNodes n) < length values"
  shows "(Rejected mv < REJECTION_MAX \<longrightarrow>
            ManageAcks_body during_sleep n mv =
              (Sending (mv\<lparr>Rejected := Rejected mv + 1\<rparr>), during_sleep n))
         \<and> (\<not> Rejected mv < REJECTION_MAX \<longrightarrow>
            ManageAcks_body during_sleep n mv =
              (Receiving, n\<lparr>ACKSReceived := (ACKSReceived n)(Seq mv := None)\<rparr>))"
  using assms by (simp add: ManageAcks_body_def Let_def)

lemma ManageAcks_nothing_offered:
  "MovesToSend n = [] \<Longrightarrow> ManageAcks during_sleep k n = (Receiving, n)"
  by (cases k) simp_all

text \<open>
  Claim C5. The claim: a pending move without quorum and with a rejection count below
  \<open>REJECTION_MAX\<close> = 3 has its count incremented and is put back for another evaluation,
  and once the count has reached \<open>REJECTION_MAX\<close> its ledger entry is discarded and the
  move is never applied. On \<open>node0\<close>, with three peers and three acks for sequence number
  7, the pending move \<open>move7\<close> is evaluated once: its count goes to 1 and the goroutine
  goes into the send on the unbuffered channel that only itself receives from. However
  many iterations are allowed, it is still there, the count is 1 and the ledger entry has
  not been discarded. And a move handed in by \<^verbatim>\<open>SendMoveToNodes\<close> gets the sequence
  number 8, for which nothing has made a ledger entry: its first evaluation drops it,
  with no retry.
\<close>

theorem ManageAcks_retry_blocks:
  "ACKSReceived node0 7 = Some [''127.0.0.1:9002'', ''127.0.0.1:9003'', ''127.0.0.1:9004'']
   \<and> length (OtherNodes node0) = 3
   \<and> ManageAcks id (Suc k) (node0\<lparr>MovesToSend := [move7]\<rparr>) =
       (Sending (move7\<lparr>Rejected := 1\<rparr>), node0)
   \<and> ACKSReceived (snd (ManageAcks id (Suc k) (node0\<lparr>MovesToSend := [move7]\<rparr>))) 7 =
       Some [''127.0.0.1:9002'', ''127.0.0.1:9003'', ''127.0.0.1:9004'']
   \<and> MovesToSend (SendMoveToNodes_ack node0 (Some \<lparr>X = 2, Y = 4\<rparr>)) =
       [\<lparr>Seq = 8, Coord = Some \<lparr>X = 2, Y = 4\<rparr>, Rejected = 0\<rparr>]
   \<and> ACKSReceived (SendMoveToNodes_ack node0 (Some \<lparr>X = 2, Y = 4\<rparr>)) 8 = None
   \<and> ManageAcks id (Suc k) (SendMoveToNodes_ack node0 (Some \<lparr>X = 2, Y = 4\<rparr>)) =
       (Receiving, (SendMoveToNodes_ack node0 (Some \<lparr>X = 2, Y = 4\<rparr>))\<lparr>MovesToSend := []\<rparr>)"
proof -
  have queue: "node0\<lparr>MovesToSend := []\<rparr> = node0"
    by (simp add: node0_def)
  have stuck: "ManageAcks id (Suc k) (node0\<lparr>MovesToSend := [move7]\<rparr>) =
      (Sending (move7\<lparr>Rejected := 1\<rparr>), node0)"
    by (simp add: ManageAcks_body_def REJECTION_MAX_def node0_facts move7_facts queue)
  have sent: "MovesToSend (SendMoveToNodes_ack node0 (Some \<lparr>X = 2, Y = 4\<rparr>)) =
      [\<lparr>Seq = 8, Coord = Some \<lparr>X = 2, Y = 4\<rparr>, Rejected = 0\<rparr>]"
    "ACKSReceived (SendMoveToNodes_ack node0 (Some \<lparr>X = 2, Y = 4\<rparr>)) 8 = None"
    by (simp_all add: SendMoveToNodes_ack_def Let_def node0_def)
  have dropped: "ManageAcks id (Suc k) (SendMoveToNodes_ack node0 (Some \<lparr>X = 2, Y = 4\<rparr>)) =
      (Receiving, (SendMoveToNodes_ack node0 (Some \<lparr>X = 2, Y = 4\<rparr>))\<lparr>MovesToSend := []\<rparr>)"
    by (simp add: sent ManageAcks_body_def ManageAcks_nothing_offered)
  show ?thesis
    using stuck sent dropped by (simp add: node0_facts)
qed

section \<open>Properties of sending\<close>

text \<open>With a move, the ACK snapshot increments the counter, queues the broadcast, offers
  the pending move on \<^verbatim>\<open>MovesToSend\<close> and leaves the ledger as it is: it makes no
  entry for the new sequence number.\<close>

lemma SendMoveToNodes_ack_move:
  "sequenceNumber (SendMoveToNodes_ack n (Some c)) = sequenceNumber n + 1
   \<and> length (MessagesToSend (SendMoveToNodes_ack n (Some c))) = length (MessagesToSend n) + 1
   \<and> MovesToSend (SendMoveToNodes_ack n (Some c)) =
       MovesToSend n @ [\<lparr>Seq = sequenceNumber n + 1, Coord = Some c, Rejected = 0\<rparr>]
   \<and> ACKSReceived (SendMoveToNodes_ack n (Some c)) = ACKSReceived n"
  by (simp add: SendMoveToNodes_ack_def Let_def)

text \<open>
  Claim C10. \<^verbatim>\<open>SendMoveToNodes\<close> with a nil move does nothing, in both snapshots: the
  node is returned as it was, so the sequence counter is not incremented, no message is
  put on \<^verbatim>\<open>MessagesToSend\<close> and no pending move on \<^verbatim>\<open>MovesToSend\<close>.
\<close>

theorem SendMoveToNodes_nil_noop:
  "SendMoveToNodes n None = n \<and> SendMoveToNodes_ack n None = n"
  by (simp add: SendMoveToNodes_def SendMoveToNodes_ack_def)

section \<open>Properties of the move handlers\<close>

text \<open>What \<^verbatim>\<open>HandleReceivedMoveL\<close> does with a move that is not nil, in both snapshots:
  the stored commitment is deleted in every case, the coordinate is applied exactly when the
  commitment matches and the move is valid, and a mismatch returns the invalid-move error
  with the game state as it was.\<close>

lemma HandleReceivedMoveL_reveal:
  "MoveCommits (snd (HandleReceivedMoveL g n identifier move)) identifier = None
   \<and> (CheckMoveCommitAgainstMove n identifier c \<and> IsValidMove g c \<longrightarrow>
        HandleReceivedMoveL g n identifier (Some c) =
          (Returned None, delete_MoveCommit (set_PlayerLoc n identifier c) identifier))
   \<and> (\<not> CheckMoveCommitAgainstMove n identifier c \<longrightarrow>
        HandleReceivedMoveL g n identifier (Some c) =
          (Returned (Some (InvalidMoveError c)), delete_MoveCommit n identifier))
   \<and> (CheckMoveCommitAgainstMove n identifier c \<and> \<not> IsValidMove g c \<longrightarrow>
        HandleReceivedMoveL g n identifier (Some c) =
          (Returned (Some (InvalidMoveError c)), delete_MoveCommit n identifier))
   \<and> GameState (PlayerNode (delete_MoveCommit n identifier)) = GameState (PlayerNode n)"
  by (simp add: HandleReceivedMoveL_def CheckMoveIsValid_def delete_MoveCommit_def
      set_PlayerLoc_def split: option.split)

lemma HandleReceivedMoveL_ack_reveal:
  "MoveCommits (snd (HandleReceivedMoveL_ack g n identifier move)) identifier = None
   \<and> (CheckMoveCommitAgainstMove n identifier c \<and> IsInBounds g c \<and> IsValidMove g c \<longrightarrow>
        HandleReceivedMoveL_ack g n identifier (Some c) =
          (Returned None, delete_MoveCommit (set_PlayerLoc n identifier c) identifier))
   \<and> (\<not> CheckMoveCommitAgainstMove n identifier c \<longrightarrow>
        HandleReceivedMoveL_ack g n identifier (Some c) =
          (Returned (Some (InvalidMoveError c)), delete_MoveCommit n identifier))
   \<and> (CheckMoveCommitAgainstMove n identifier c \<and> \<not> (IsInBounds g c \<and> IsValidMove g c) \<longrightarrow>
        snd (HandleReceivedMoveL_ack g n identifier (Some c)) = delete_MoveCommit n identifier)"
  by (simp add: HandleReceivedMoveL_ack_def CheckMoveIsValid_ack_def delete_MoveCommit_def
      set_PlayerLoc_def split: option.split)

text \<open>On the example states: the reveal of the committed move (2, 4) is applied and the
  commitment consumed; without a commitment the same move is rejected.\<close>

lemma lockstep_reveal_node1:
  "HandleReceivedMoveL grid0 node1 ''prey'' (Some \<lparr>X = 2, Y = 4\<rparr>) =
     (Returned None, set_PlayerLoc node0 ''prey'' \<lparr>X = 2, Y = 4\<rparr>)
   \<and> HandleReceivedMoveL grid0 node0 ''prey'' (Some \<lparr>X = 2, Y = 4\<rparr>) =
     (Returned (Some (InvalidMoveError \<lparr>X = 2, Y = 4\<rparr>)), node0)"
  by (simp add: HandleReceivedMoveL_def CheckMoveCommitAgainstMove_def CheckMoveIsValid_def
      delete_MoveCommit_def set_PlayerLoc_def node1_def node0_def grid0_def)

text \<open>
  Claim C3. The claim: a prey move is applied only with a matching stored commitment and
  a valid move, a nil move or a hash mismatch returns the invalid-move error without
  changing the game state, and the stored commitment is deleted in every case. The code
  does not return for a nil move: in both snapshots the call panics at \<^verbatim>\<open>move.X\<close>, with
  the commitment deleted by the deferred call.
\<close>

theorem HandleReceivedMoveL_nil_move:
  "MoveCommits node1 ''prey'' = Some (EncodeToString (CalculateHash \<lparr>X = 2, Y = 4\<rparr> ''prey''))
   \<and> HandleReceivedMoveL grid0 node1 ''prey'' None = (Panicked, node0)
   \<and> HandleReceivedMoveL_ack grid0 node1 ''prey'' None = (Panicked, node0)"
  by (simp add: HandleReceivedMoveL_def HandleReceivedMoveL_ack_def delete_MoveCommit_def
      node1_def node0_def)

lemma ack_message:
  "SendACK n identifier seq =
     n\<lparr>MessagesToSend := MessagesToSend n @
        [\<lparr>Recipient = identifier,
          Message = \<lparr>MsgIdentifier = Identifier (PlayerNode n), MessageType = ''ack'',
                     MsgGameState = None, Move = None, MsgSeq = seq, MsgMoveCommit = None,
                     Score = 0, Addr = LocalAddr n\<rparr>\<rparr>]\<rparr>"
  by (simp add: SendACK_def)

text \<open>What \<^verbatim>\<open>HandleReceivedMoveNL\<close> of the ACK snapshot does with a move \<open>c\<close> that is
  not nil: if \<open>c\<close> is in bounds and a valid move, it is applied to the game state for the
  sender and an ACK with the sequence number of the move is put on \<^verbatim>\<open>MessagesToSend\<close>
  with the sender as recipient; if \<open>c\<close> fails the bounds test or the valid-move test, the
  error of that test is returned and the node is left as it was, so no ACK is sent.\<close>

lemma HandleReceivedMoveNL_ack_move:
  "(IsInBounds g c \<and> IsValidMove g c \<longrightarrow>
      HandleReceivedMoveNL_ack g n identifier (Some c) seq =
        (Returned None,
         (set_PlayerLoc n identifier c)\<lparr>MessagesToSend := MessagesToSend n @
            [\<lparr>Recipient = identifier,
              Message = \<lparr>MsgIdentifier = Identifier (PlayerNode n), MessageType = ''ack'',
                         MsgGameState = None, Move = None, MsgSeq = seq, MsgMoveCommit = None,
                         Score = 0, Addr = LocalAddr n\<rparr>\<rparr>]\<rparr>))
   \<and> (\<not> IsInBounds g c \<longrightarrow>
        HandleReceivedMoveNL_ack g n identifier (Some c) seq =
          (Returned (Some (OutOfBoundsError c)), n))
   \<and> (IsInBounds g c \<and> \<not> IsValidMove g c \<longrightarrow>
        HandleReceivedMoveNL_ack g n identifier (Some c) seq =
          (Returned (Some (InvalidMoveError c)), n))"
  by (simp add: HandleReceivedMoveNL_ack_def CheckMoveIsValid_ack_def ack_message set_PlayerLoc_def)

text \<open>On \<open>node0\<close>: a valid move, a move outside the grid and a move onto the wall.\<close>

lemma HandleReceivedMoveNL_ack_node0:
  "IsInBounds grid0 \<lparr>X = 2, Y = 4\<rparr> \<and> IsValidMove grid0 \<lparr>X = 2, Y = 4\<rparr>
   \<and> HandleReceivedMoveNL_ack grid0 node0 ''2'' (Some \<lparr>X = 2, Y = 4\<rparr>) 5 =
       (Returned None,
        (set_PlayerLoc node0 ''2'' \<lparr>X = 2, Y = 4\<rparr>)\<lparr>MessagesToSend :=
           [\<lparr>Recipient = ''2'',
             Message = \<lparr>MsgIdentifier = ''1'', MessageType = ''ack'',
                        MsgGameState = None, Move = None, MsgSeq = 5, MsgMoveCommit = None,
                        Score = 0, Addr = ''127.0.0.1:9001''\<rparr>\<rparr>]\<rparr>)
   \<and> \<not> IsInBounds grid0 \<lparr>X = 12, Y = 3\<rparr>
   \<and> HandleReceivedMoveNL_ack grid0 node0 ''2'' (Some \<lparr>X = 12, Y = 3\<rparr>) 5 =
       (Returned (Some (OutOfBoundsError \<lparr>X = 12, Y = 3\<rparr>)), node0)
   \<and> IsInBounds grid0 \<lparr>X = 5, Y = 5\<rparr> \<and> \<not> IsValidMove grid0 \<lparr>X = 5, Y = 5\<rparr>
   \<and> HandleReceivedMoveNL_ack grid0 node0 ''2'' (Some \<lparr>X = 5, Y = 5\<rparr>) 5 =
       (Returned (Some (InvalidMoveError \<lparr>X = 5, Y = 5\<rparr>)), node0)"
proof -
  have q: "MessagesToSend node0 = []" "Identifier (PlayerNode node0) = ''1''"
    "LocalAddr node0 = ''127.0.0.1:9001''"
    by (simp_all add: node0_def)
  show ?thesis
    using HandleReceivedMoveNL_ack_move [of grid0 "\<lparr>X = 2, Y = 4\<rparr>" node0 "''2''" 5]
      HandleReceivedMoveNL_ack_move [of grid0 "\<lparr>X = 12, Y = 3\<rparr>" node0 "''2''" 5]
      HandleReceivedMoveNL_ack_move [of grid0 "\<lparr>X = 5, Y = 5\<rparr>" node0 "''2''" 5]
      grid0_facts q
    by simp
qed

text \<open>
  Claim C9. The claim: for every move message from a sender other than the prey, a move
  that passes grid validation is applied and answered with an ACK of the same sequence
  number, and one that does not is answered with the invalid-move error and no ACK. For a
  message that carries a move the code does so (the two lemmas above; the bounds test
  reports its failure with the out-of-bounds error). For a message whose move is nil the
  code skips the block guarded by the nil check and reads \<^verbatim>\<open>move.X\<close> for the error
  text: the call panics and returns no error.
\<close>

theorem HandleReceivedMoveNL_ack_nil_move:
  "HandleReceivedMoveNL_ack grid0 node0 ''2'' None 5 = (Panicked, node0)"
  by (simp add: HandleReceivedMoveNL_ack_def)

text \<open>
  Claim C8. An identifier has at most one stored commitment (\<^verbatim>\<open>MoveCommits\<close> is a map),
  and \<^verbatim>\<open>HandleReceivedMoveCommit\<close> keeps it so: a commitment that fails the authenticity
  check returns the incorrect-player error and the node is left as it was; one that passes
  returns no error and is stored under the sender's identifier when nothing is stored for
  it; a commitment already stored is left as it is; the entries of other identifiers are
  never touched; and the map changes only when the check passed and nothing was stored.
\<close>

theorem HandleReceivedMoveCommit_first_writer_wins:
  "(\<not> CheckAuthenticityOfMoveCommit k mc \<longrightarrow>
      HandleReceivedMoveCommit k n identifier (Some mc) =
        (Returned (Some (IncorrectPlayerError identifier)), n))
   \<and> (CheckAuthenticityOfMoveCommit k mc \<longrightarrow>
        fst (HandleReceivedMoveCommit k n identifier (Some mc)) = Returned None)
   \<and> (CheckAuthenticityOfMoveCommit k mc \<and> MoveCommits n identifier = None \<longrightarrow>
        snd (HandleReceivedMoveCommit k n identifier (Some mc)) =
          n\<lparr>MoveCommits := (MoveCommits n)(identifier \<mapsto> EncodeToString (MoveHash mc))\<rparr>)
   \<and> (\<forall>stored. MoveCommits n identifier = Some stored \<longrightarrow>
        snd (HandleReceivedMoveCommit k n identifier (Some mc)) = n)
   \<and> (\<forall>other. other \<noteq> identifier \<longrightarrow>
        MoveCommits (snd (HandleReceivedMoveCommit k n identifier (Some mc))) other =
          MoveCommits n other)
   \<and> (MoveCommits (snd (HandleReceivedMoveCommit k n identifier (Some mc))) \<noteq> MoveCommits n \<longrightarrow>
        CheckAuthenticityOfMoveCommit k mc \<and> MoveCommits n identifier = None)"
  by (cases "MoveCommits n identifier") (simp_all add: HandleReceivedMoveCommit_def)

theorem HandleReceivedMoveCommit_first_writer_wins_witness:
  "CheckAuthenticityOfMoveCommit crypto0 commit0
   \<and> MoveCommits node0 ''prey'' = None
   \<and> HandleReceivedMoveCommit crypto0 node0 ''prey'' (Some commit0) =
       (Returned None, node0\<lparr>MoveCommits := [''prey'' \<mapsto> ''ab01'']\<rparr>)
   \<and> \<not> CheckAuthenticityOfMoveCommit crypto0 forged0
   \<and> HandleReceivedMoveCommit crypto0 node0 ''prey'' (Some forged0) =
       (Returned (Some (IncorrectPlayerError ''prey'')), node0)
   \<and> MoveCommits (node0\<lparr>MoveCommits := [''prey'' \<mapsto> ''cd02'']\<rparr>) ''prey'' = Some ''cd02''
   \<and> HandleReceivedMoveCommit crypto0 (node0\<lparr>MoveCommits := [''prey'' \<mapsto> ''cd02'']\<rparr>) ''prey'' (Some commit0) =
       (Returned None, node0\<lparr>MoveCommits := [''prey'' \<mapsto> ''cd02'']\<rparr>)"
proof -
  have empty: "MoveCommits node0 ''prey'' = None" "MoveCommits node0 = Map.empty"
    by (simp_all add: node0_def)
  have a: "HandleReceivedMoveCommit crypto0 node0 ''prey'' (Some commit0) =
       (Returned None, node0\<lparr>MoveCommits := [''prey'' \<mapsto> ''ab01'']\<rparr>)"
    using HandleReceivedMoveCommit_first_writer_wins [of crypto0 commit0 node0 "''prey''"]
      auth_commit0 empty hex_commit0 by (simp add: prod_eq_iff)
  have b: "HandleReceivedMoveCommit crypto0 node0 ''prey'' (Some forged0) =
       (Returned (Some (IncorrectPlayerError ''prey'')), node0)"
    using HandleReceivedMoveCommit_first_writer_wins [of crypto0 forged0 node0 "''prey''"]
      auth_forged0 by simp
  have c: "HandleReceivedMoveCommit crypto0 (node0\<lparr>MoveCommits := [''prey'' \<mapsto> ''cd02'']\<rparr>) ''prey'' (Some commit0) =
       (Returned None, node0\<lparr>MoveCommits := [''prey'' \<mapsto> ''cd02'']\<rparr>)"
    using HandleReceivedMoveCommit_first_writer_wins
      [of crypto0 commit0 "node0\<lparr>MoveCommits := [''prey'' \<mapsto> ''cd02'']\<rparr>" "''prey''"]
      auth_commit0 by (simp add: prod_eq_iff)
  show ?thesis using a b c auth_commit0 auth_forged0 empty by simp
qed

section \<open>Prey capture\<close>

text \<open>Whatever the message, \<^verbatim>\<open>HandleCapturedPreyRequest\<close> returns no success and leaves
  the node as it was.\<close>

lemma HandleCapturedPreyRequest_never_succeeds:
  "fst (HandleCapturedPreyRequest g n identifier move score) \<noteq> Returned None
   \<and> snd (HandleCapturedPreyRequest g n identifier move score) = n"
  by (simp add: HandleCapturedPreyRequest_def split: option.split)

text \<open>
  Claim C1. The claim: a capture message at the prey's location, grid-valid and with a
  score one above the recorded score succeeds and the recorded score goes up by one; a
  failed check returns its error with the score unchanged. On \<open>node0\<close> the prey is at
  (2, 3) and player \<open>''2''\<close> has the score 4: the capture at (2, 3) with score 5 passes
  the first two checks and is rejected with the invalid-score-update error, the score
  unchanged.
\<close>

theorem HandleCapturedPreyRequest_score_check:
  "CheckGotPrey node0 \<lparr>X = 2, Y = 3\<rparr> = None
   \<and> CheckMoveIsValid grid0 \<lparr>X = 2, Y = 3\<rparr> = None
   \<and> PlayerScores (GameState (PlayerNode node0)) ''2'' = Some 4
   \<and> HandleCapturedPreyRequest grid0 node0 ''2'' (Some \<lparr>X = 2, Y = 3\<rparr>) (4 + 1) =
       (Returned (Some (InvalidScoreUpdateError 5)), node0)"
  by (simp add: HandleCapturedPreyRequest_def CheckGotPrey_def CheckMoveIsValid_def
      node0_def grid0_def)

end
